theory Spec2Isabelle
  imports Main
begin

section \<open>Python values and exceptions\<close>

text \<open>
  The player agent exchanges JSON-shaped dictionaries (\<open>Dict[str, Any]\<close>). A value of such a
  dictionary is one of the JSON shapes; a dictionary is an association list whose first
  binding of a key is the one that counts. Strings are byte strings, so the model covers
  ASCII text.
\<close>

datatype pyval =
    PNone
  | PBool bool
  | PInt int
  | PStr string
  | PList "pyval list"
  | PDict "(string \<times> pyval) list"

text \<open>
  Every exception class the modelled code raises or catches, with its message.
  \<open>CancelledError\<close> (raised into a coroutine whose task is cancelled) and the other direct
  subclasses of \<open>BaseException\<close> (\<open>KeyboardInterrupt\<close>, \<open>SystemExit\<close>) are not subclasses
  of \<open>Exception\<close>: \<open>except Exception\<close> lets them pass.
\<close>

datatype exn =
    ValueError string
  | TypeError string
  | AttributeError string
  | RuntimeError string
  | ImportError string
  | TimeoutError
  | OtherException string
  | CancelledError
  | BaseException string

fun is_Exception :: "exn \<Rightarrow> bool" where
  "is_Exception CancelledError = False"
| "is_Exception (BaseException _) = False"
| "is_Exception _ = True"

text \<open>\<open>type(v).__name__\<close>, as error messages quote it.\<close>

fun type_name :: "pyval \<Rightarrow> string" where
  "type_name PNone = ''NoneType''"
| "type_name (PBool _) = ''bool''"
| "type_name (PInt _) = ''int''"
| "type_name (PStr _) = ''str''"
| "type_name (PList _) = ''list''"
| "type_name (PDict _) = ''dict''"

text \<open>\<open>d.get(k, default)\<close> on a dictionary with string keys.\<close>

definition dict_get :: "(string \<times> pyval) list \<Rightarrow> string \<Rightarrow> pyval \<Rightarrow> pyval" where
  "dict_get d k dflt = (case map_of d k of None \<Rightarrow> dflt | Some v \<Rightarrow> v)"

text \<open>Lists and dictionaries are unhashable: using one as a dictionary key raises TypeError.\<close>

fun hashable :: "pyval \<Rightarrow> bool" where
  "hashable (PList _) = False"
| "hashable (PDict _) = False"
| "hashable _ = True"

text \<open>
  \<open>obj.get(key, default)\<close> where \<open>obj\<close> is any JSON value: only a dictionary has \<open>get\<close>
  (AttributeError otherwise), the key is hashed before it is looked up (TypeError), and a
  key that is not a string is never found among string keys.
\<close>

definition obj_get :: "pyval \<Rightarrow> pyval \<Rightarrow> pyval \<Rightarrow> exn + pyval" where
  "obj_get obj key dflt =
     (case obj of
        PDict d \<Rightarrow>
          (if \<not> hashable key then
             Inl (TypeError (''unhashable type: '' @ [CHR 0x27] @ type_name key @ [CHR 0x27]))
           else (case key of PStr k \<Rightarrow> Inr (dict_get d k dflt) | _ \<Rightarrow> Inr dflt))
      | _ \<Rightarrow>
          Inl (AttributeError ([CHR 0x27] @ type_name obj @ [CHR 0x27] @
                               '' object has no attribute 'get'' @ [CHR 0x27])))"

text \<open>
  \<open>xs[i:]\<close>: a negative start counts from the end and is clamped at the front, a start
  beyond the end gives the empty list.
\<close>

definition slice_from :: "'a list \<Rightarrow> int \<Rightarrow> 'a list" where
  "slice_from xs i =
     (if i < 0 then drop (nat (int (length xs) + i)) xs else drop (nat i) xs)"

section \<open>utils/timestamp.py\<close>

text \<open>
  The reading of the clock, \<open>datetime.now(timezone.utc)\<close>, is a parameter of everything
  that stamps a message. Its fields are those of Python's \<open>datetime\<close>; the zone is UTC.
\<close>

record datetime =
  year :: nat
  month :: nat
  day :: nat
  hour :: nat
  minute :: nat
  second :: nat
  microsecond :: nat

definition is_leap :: "nat \<Rightarrow> bool" where
  "is_leap y = (y mod 4 = 0 \<and> (y mod 100 \<noteq> 0 \<or> y mod 400 = 0))"

definition days_in_month :: "nat \<Rightarrow> nat \<Rightarrow> nat" where
  "days_in_month y m =
     (if m = 2 then (if is_leap y then 29 else 28)
      else if m = 4 \<or> m = 6 \<or> m = 9 \<or> m = 11 then 30 else 31)"

text \<open>The field ranges every Python \<open>datetime\<close> object satisfies.\<close>

definition valid_datetime :: "datetime \<Rightarrow> bool" where
  "valid_datetime dt =
     (1 \<le> year dt \<and> year dt \<le> 9999 \<and> 1 \<le> month dt \<and> month dt \<le> 12 \<and>
      1 \<le> day dt \<and> day dt \<le> days_in_month (year dt) (month dt) \<and>
      hour dt < 24 \<and> minute dt < 60 \<and> second dt < 60 \<and> microsecond dt < 1000000)"

definition digit_char :: "nat \<Rightarrow> char" where
  "digit_char d = ''0123456789'' ! d"

definition is_digit :: "char \<Rightarrow> bool" where
  "is_digit c = (c \<in> set ''0123456789'')"

definition digit_val :: "char \<Rightarrow> nat" where
  "digit_val c = of_char c - 48"

text \<open>\<open>str(n)\<close> for a natural number.\<close>

function dec :: "nat \<Rightarrow> string" where
  "dec n = (if n < 10 then [digit_char n] else dec (n div 10) @ [digit_char (n mod 10)])"
  by pat_completeness auto
termination
  by (relation "measure (\<lambda>n. n)") auto

declare dec.simps [simp del]

text \<open>\<open>"%0wd" % n\<close>: at least \<open>w\<close> characters, filled with zeros on the left.\<close>

definition zero_pad :: "nat \<Rightarrow> nat \<Rightarrow> string" where
  "zero_pad w n = replicate (w - length (dec n)) (CHR ''0'') @ dec n"

text \<open>\<open>str(i)\<close> for an integer.\<close>

definition str_int :: "int \<Rightarrow> string" where
  "str_int i = (if i < 0 then ''-'' @ dec (nat (- i)) else dec (nat i))"

text \<open>\<open>int(s)\<close> for a string of decimal digits.\<close>

definition nat_of_digits :: "string \<Rightarrow> nat" where
  "nat_of_digits s = foldl (\<lambda>a c. 10 * a + digit_val c) 0 s"

text \<open>
  \<open>datetime.isoformat()\<close> of an aware UTC datetime: the fraction is written only when
  the microsecond field is not zero, and the offset of UTC is \<open>+00:00\<close>.
\<close>

definition isoformat :: "datetime \<Rightarrow> string" where
  "isoformat dt =
     zero_pad 4 (year dt) @ ''-'' @ zero_pad 2 (month dt) @ ''-'' @ zero_pad 2 (day dt) @
     ''T'' @ zero_pad 2 (hour dt) @ '':'' @ zero_pad 2 (minute dt) @ '':'' @
     zero_pad 2 (second dt) @
     (if microsecond dt \<noteq> 0 then ''.'' @ zero_pad 6 (microsecond dt) else []) @
     ''+00:00''"

text \<open>
  \<open>s.replace(old, new)\<close> for a non-empty \<open>old\<close>: every occurrence, left to right, without
  overlap. (With an empty \<open>old\<close> the model leaves \<open>s\<close> as it is; the code never does that.)
\<close>

function str_replace :: "string \<Rightarrow> string \<Rightarrow> string \<Rightarrow> string" where
  "str_replace old new [] = []"
| "str_replace old new (c # cs) =
     (if old \<noteq> [] \<and> take (length old) (c # cs) = old
      then new @ str_replace old new (drop (length old) (c # cs))
      else c # str_replace old new cs)"
  by pat_completeness auto
termination
  by (relation "measure (\<lambda>(old, new, s). length s)") (auto simp: neq_Nil_conv)

definition get_utc_now :: "datetime \<Rightarrow> string" where
  "get_utc_now now = str_replace ''+00:00'' ''Z'' (isoformat now)"

definition utc_now :: "datetime \<Rightarrow> string" where
  "utc_now now = get_utc_now now"

text \<open>
  \<open>ISO8601_PATTERN\<close>, the regular expression
  \<^verbatim>\<open>^\d{4}-\d{2}-\d{2}T\d{2}:\d{2}:\d{2}(\.\d+)?Z$\<close>, matched from the start of the
  string. \<open>$\<close> matches at the end and also just before one final newline.
\<close>

definition all_digits :: "string \<Rightarrow> bool" where
  "all_digits s = list_all is_digit s"

definition strip_final_newline :: "string \<Rightarrow> string" where
  "strip_final_newline s = (if s \<noteq> [] \<and> last s = CHR 0x0A then butlast s else s)"

text \<open>The fixed part of the layout: \<open>YYYY-MM-DDTHH:MM:SS\<close> in the first 19 characters.\<close>

definition date_time_layout :: "string \<Rightarrow> bool" where
  "date_time_layout t =
     (19 \<le> length t \<and>
      all_digits (take 4 t) \<and> t ! 4 = CHR ''-'' \<and>
      all_digits (take 2 (drop 5 t)) \<and> t ! 7 = CHR ''-'' \<and>
      all_digits (take 2 (drop 8 t)) \<and> t ! 10 = CHR ''T'' \<and>
      all_digits (take 2 (drop 11 t)) \<and> t ! 13 = CHR '':'' \<and>
      all_digits (take 2 (drop 14 t)) \<and> t ! 16 = CHR '':'' \<and>
      all_digits (take 2 (drop 17 t)))"

text \<open>\<^verbatim>\<open>(\.\d+)?Z\<close> up to the end.\<close>

definition fraction_then_Z :: "string \<Rightarrow> bool" where
  "fraction_then_Z r =
     (r = ''Z'' \<or>
      (case r of
         [] \<Rightarrow> False
       | c # f \<Rightarrow> c = CHR ''.'' \<and> takeWhile is_digit f \<noteq> [] \<and> dropWhile is_digit f = ''Z''))"

definition ISO8601_PATTERN_match :: "string \<Rightarrow> bool" where
  "ISO8601_PATTERN_match s =
     (let t = strip_final_newline s in date_time_layout t \<and> fraction_then_Z (drop 19 t))"

text \<open>\<open>s.rstrip('Z')\<close>: every trailing \<open>Z\<close> goes.\<close>

definition rstrip_Z :: "string \<Rightarrow> string" where
  "rstrip_Z s = rev (dropWhile (\<lambda>c. c = CHR ''Z'') (rev s))"

text \<open>
  \<open>datetime.fromisoformat\<close> on the layout that the pattern lets through: date, \<open>T\<close>, time
  and an optional fraction, of which the first six digits count (Python 3.11 and later
  take a fraction of any length). Every field must be in range. Every call in this module
  comes after the pattern has matched; for a string of another layout the model raises
  ValueError.
\<close>

definition fromisoformat :: "string \<Rightarrow> exn + datetime" where
  "fromisoformat u =
     (let f = drop 19 u
      in if \<not> (date_time_layout u \<and>
                (f = [] \<or> (hd f = CHR ''.'' \<and> tl f \<noteq> [] \<and> all_digits (tl f))))
         then Inl (ValueError (''Invalid isoformat string: '' @ u))
         else
           let dt = \<lparr>year = nat_of_digits (take 4 u),
                     month = nat_of_digits (take 2 (drop 5 u)),
                     day = nat_of_digits (take 2 (drop 8 u)),
                     hour = nat_of_digits (take 2 (drop 11 u)),
                     minute = nat_of_digits (take 2 (drop 14 u)),
                     second = nat_of_digits (take 2 (drop 17 u)),
                     microsecond =
                       (if f = [] then 0 else nat_of_digits (take 6 (tl f @ ''000000'')))\<rparr>
           in if valid_datetime dt then Inr dt
              else Inl (ValueError ''field out of range''))"

text \<open>\<open>_parse_timestamp\<close>; attaching the UTC zone changes no field.\<close>

definition parse_timestamp :: "string \<Rightarrow> exn + datetime" where
  "parse_timestamp timestamp_str = fromisoformat (rstrip_Z timestamp_str)"

text \<open>
  \<open>validate_timestamp\<close>: it raises on an empty string, and a string that matches the
  pattern but does not parse (ValueError, TypeError) is invalid.
\<close>

definition validate_timestamp :: "string \<Rightarrow> exn + bool" where
  "validate_timestamp timestamp_str =
     (if timestamp_str = [] then Inl (ValueError ''Timestamp string cannot be None or empty'')
      else if \<not> ISO8601_PATTERN_match timestamp_str then Inr False
      else (case parse_timestamp timestamp_str of
              Inr dt \<Rightarrow> Inr True
            | Inl (ValueError m) \<Rightarrow> Inr False
            | Inl (TypeError m) \<Rightarrow> Inr False
            | Inl x \<Rightarrow> Inl x))"

section \<open>agents/player/state.py\<close>

record MatchResult =
  match_id :: pyval
  opponent_id :: pyval
  player_choice :: pyval
  opponent_choice :: pyval
  drawn_number :: pyval
  result :: string
  points_earned :: int
  timestamp :: string

text \<open>The \<open>stats\<close> dictionary: five integer counters under fixed keys.\<close>

record stats_dict =
  wins :: int
  draws :: int
  losses :: int
  total_points :: int
  total_matches :: int

record PlayerState =
  player_id :: string
  display_name :: string
  max_history_entries :: int
  persistence_enabled :: bool
  state_file_path :: "string option"
  auth_token :: "string option"
  registered :: bool
  stats :: stats_dict
  match_history :: "MatchResult list"

text \<open>
  What \<open>_load_state\<close> restores from the state file. The file system is outside the model:
  the snapshot found at \<open>state_file_path\<close> is a parameter, \<open>None\<close> when the file does not
  exist or cannot be read.
\<close>

record snapshot =
  snap_auth_token :: "string option"
  snap_registered :: bool
  snap_stats :: stats_dict
  snap_match_history :: "MatchResult list"

definition load_state :: "PlayerState \<Rightarrow> snapshot option \<Rightarrow> PlayerState" where
  "load_state s file =
     (if state_file_path s = None \<or> state_file_path s = Some [] then s
      else (case file of
              None \<Rightarrow> s
            | Some d \<Rightarrow> s\<lparr>auth_token := snap_auth_token d, registered := snap_registered d,
                          stats := snap_stats d, match_history := snap_match_history d\<rparr>))"

text \<open>\<open>PlayerState.__init__\<close>: an empty \<open>player_id\<close> is refused.\<close>

definition PlayerState_init ::
  "string \<Rightarrow> string \<Rightarrow> int \<Rightarrow> bool \<Rightarrow> string option \<Rightarrow> snapshot option \<Rightarrow> exn + PlayerState" where
  "PlayerState_init pid name max_entries persist path file =
     (if pid = [] then Inl (ValueError ''player_id cannot be None or empty'')
      else
        let s = \<lparr>player_id = pid, display_name = name, max_history_entries = max_entries,
                 persistence_enabled = persist, state_file_path = path,
                 auth_token = None, registered = False,
                 stats = \<lparr>wins = 0, draws = 0, losses = 0, total_points = 0,
                          total_matches = 0\<rparr>,
                 match_history = []\<rparr>
        in Inr (if persist \<and> path \<noteq> None \<and> path \<noteq> Some [] then load_state s file else s))"

text \<open>
  \<open>_maybe_save_state\<close> writes a snapshot to the state file when persistence is enabled,
  swallowing every failure; no field of the state changes.
\<close>

definition maybe_save_state :: "PlayerState \<Rightarrow> PlayerState" where
  "maybe_save_state s = s"

definition set_auth_token :: "PlayerState \<Rightarrow> string \<Rightarrow> PlayerState" where
  "set_auth_token s tok = maybe_save_state (s\<lparr>auth_token := Some tok, registered := True\<rparr>)"

text \<open>
  \<open>update_from_result\<close>. The two \<open>choices.get\<close> calls come before any counter is touched,
  so a message whose \<open>choices\<close> is not a dictionary, or whose \<open>opponent_id\<close> is unhashable,
  raises and leaves the state as it was. \<open>now\<close> is the clock reading of the record's
  timestamp.
\<close>

definition update_from_result ::
  "PlayerState \<Rightarrow> (string \<times> pyval) list \<Rightarrow> datetime \<Rightarrow> exn + PlayerState" where
  "update_from_result s game_over_msg now =
     (let mid = dict_get game_over_msg ''match_id'' (PStr ''unknown'');
          winner = dict_get game_over_msg ''winner'' PNone;
          drawn = dict_get game_over_msg ''drawn_number'' (PInt 0);
          choices = dict_get game_over_msg ''choices'' (PDict []);
          opp = dict_get game_over_msg ''opponent_id'' (PStr ''unknown'')
      in case obj_get choices (PStr (player_id s)) (PStr ''unknown'') of
           Inl e \<Rightarrow> Inl e
         | Inr pc \<Rightarrow>
      (case obj_get choices opp (PStr ''unknown'') of
           Inl e \<Rightarrow> Inl e
         | Inr oc \<Rightarrow>
        let (res, pts, st1) =
              (if winner = PNone then
                 (''draw'', 1, (stats s)\<lparr>draws := draws (stats s) + 1\<rparr>)
               else if winner = PStr (player_id s) then
                 (''win'', 3, (stats s)\<lparr>wins := wins (stats s) + 1\<rparr>)
               else
                 (''loss'', 0, (stats s)\<lparr>losses := losses (stats s) + 1\<rparr>));
            st2 = st1\<lparr>total_points := total_points st1 + pts,
                      total_matches := total_matches st1 + 1\<rparr>;
            match_record = \<lparr>match_id = mid, opponent_id = opp, player_choice = pc,
                            opponent_choice = oc, drawn_number = drawn, result = res,
                            points_earned = pts, timestamp = utc_now now\<rparr>;
            hist = match_history s @ [match_record];
            hist' = (if int (length hist) > max_history_entries s
                     then slice_from hist (- max_history_entries s) else hist)
        in Inr (maybe_save_state (s\<lparr>stats := st2, match_history := hist'\<rparr>))))"

text \<open>\<open>dataclasses.asdict\<close> of a match record.\<close>

definition asdict :: "MatchResult \<Rightarrow> (string \<times> pyval) list" where
  "asdict m =
     [(''match_id'', match_id m), (''opponent_id'', opponent_id m),
      (''player_choice'', player_choice m), (''opponent_choice'', opponent_choice m),
      (''drawn_number'', drawn_number m), (''result'', PStr (result m)),
      (''points_earned'', PInt (points_earned m)), (''timestamp'', PStr (timestamp m))]"

text \<open>\<open>get_match_history(limit)\<close>: \<open>if limit:\<close> is false for \<open>None\<close> and for \<open>0\<close>.\<close>

definition get_match_history :: "PlayerState \<Rightarrow> int option \<Rightarrow> (string \<times> pyval) list list" where
  "get_match_history s limit =
     (let history = map asdict (match_history s)
      in case limit of
           None \<Rightarrow> history
         | Some l \<Rightarrow> (if l \<noteq> 0 then slice_from history (- l) else history))"

text \<open>
  A run of result notifications, each with the clock reading of its record; the run stops
  at the first call that raises.
\<close>

fun apply_results ::
  "PlayerState \<Rightarrow> ((string \<times> pyval) list \<times> datetime) list \<Rightarrow> exn + PlayerState" where
  "apply_results s [] = Inr s"
| "apply_results s ((m, now) # rest) =
     (case update_from_result s m now of Inl e \<Rightarrow> Inl e | Inr s' \<Rightarrow> apply_results s' rest)"

text \<open>
  The match record of one result message as the data model describes it: the identifiers,
  both choices and the drawn value are read from the message (with the defaults of
  \<open>update_from_result\<close>), the outcome is a function of the reported winner alone, and
  the points are a function of the outcome.
\<close>

definition spec_match_record ::
  "string \<Rightarrow> (string \<times> pyval) list \<Rightarrow> datetime \<Rightarrow> MatchResult" where
  "spec_match_record pid m now =
     (let winner = dict_get m ''winner'' PNone;
          choices = dict_get m ''choices'' (PDict []);
          opp = dict_get m ''opponent_id'' (PStr ''unknown'');
          own = (case obj_get choices (PStr pid) (PStr ''unknown'') of
                   Inr v \<Rightarrow> v | Inl _ \<Rightarrow> PStr ''unknown'');
          other = (case obj_get choices opp (PStr ''unknown'') of
                     Inr v \<Rightarrow> v | Inl _ \<Rightarrow> PStr ''unknown'')
      in \<lparr>match_id = dict_get m ''match_id'' (PStr ''unknown''), opponent_id = opp,
          player_choice = own, opponent_choice = other,
          drawn_number = dict_get m ''drawn_number'' (PInt 0),
          result = (if winner = PNone then ''draw''
                    else if winner = PStr pid then ''win'' else ''loss''),
          points_earned = (if winner = PNone then 1 else if winner = PStr pid then 3 else 0),
          timestamp = utc_now now\<rparr>)"

text \<open>The statistics invariant after \<open>n\<close> applied results.\<close>

definition stats_inv :: "PlayerState \<Rightarrow> int \<Rightarrow> bool" where
  "stats_inv s n =
     (total_matches (stats s) = n \<and>
      wins (stats s) + draws (stats s) + losses (stats s) = n \<and>
      total_points (stats s) = 3 * wins (stats s) + 1 * draws (stats s))"

section \<open>core/protocol.py\<close>

record ProtocolMessageBuilder =
  builder_player_id :: string
  builder_auth_token :: "string option"

definition PROTOCOL_VERSION :: string where
  "PROTOCOL_VERSION = ''league.v2''"

definition ProtocolMessageBuilder_init :: "string \<Rightarrow> exn + ProtocolMessageBuilder" where
  "ProtocolMessageBuilder_init pid =
     (if pid = [] then Inl (ValueError ''player_id cannot be None or empty'')
      else Inr \<lparr>builder_player_id = pid, builder_auth_token = None\<rparr>)"

definition builder_set_auth_token ::
  "ProtocolMessageBuilder \<Rightarrow> string \<Rightarrow> ProtocolMessageBuilder" where
  "builder_set_auth_token b tok = b\<lparr>builder_auth_token := Some tok\<rparr>"

text \<open>The message of the error raised when a token is required and none is set.\<close>

definition auth_token_required :: "string \<Rightarrow> string" where
  "auth_token_required message_type =
     ''auth_token is required for '' @ message_type @
     '' but not set. Call set_auth_token() after registration.''"

text \<open>
  \<open>_build_envelope\<close>. \<open>if not self.auth_token\<close> holds for \<open>None\<close> and for the empty
  string. Conversation and match identifiers arrive from request parameters and may be
  any JSON value.
\<close>

definition build_envelope ::
  "ProtocolMessageBuilder \<Rightarrow> datetime \<Rightarrow> string \<Rightarrow> pyval \<Rightarrow> bool \<Rightarrow>
     exn + (string \<rightharpoonup> pyval)" where
  "build_envelope b now message_type conversation_id include_auth =
     (let envelope =
            [''protocol'' \<mapsto> PStr PROTOCOL_VERSION,
             ''message_type'' \<mapsto> PStr message_type,
             ''sender'' \<mapsto> PStr (''player:'' @ builder_player_id b),
             ''timestamp'' \<mapsto> PStr (utc_now now),
             ''conversation_id'' \<mapsto> conversation_id]
      in if include_auth then
           (case builder_auth_token b of
              None \<Rightarrow> Inl (ValueError (auth_token_required message_type))
            | Some tok \<Rightarrow>
                (if tok = [] then Inl (ValueError (auth_token_required message_type))
                 else Inr (envelope(''auth_token'' \<mapsto> PStr tok))))
         else Inr envelope)"

definition build_league_register_request ::
  "ProtocolMessageBuilder \<Rightarrow> datetime \<Rightarrow> pyval \<Rightarrow> pyval \<Rightarrow> pyval \<Rightarrow>
     exn + (string \<rightharpoonup> pyval)" where
  "build_league_register_request b now conversation_id name callback_url =
     (case build_envelope b now ''LEAGUE_REGISTER_REQUEST'' conversation_id False of
        Inl e \<Rightarrow> Inl e
      | Inr envelope \<Rightarrow>
          Inr (envelope(''player_id'' \<mapsto> PStr (builder_player_id b),
                        ''display_name'' \<mapsto> name,
                        ''callback_url'' \<mapsto> callback_url)))"

text \<open>\<open>build_game_join_ack\<close> reads the clock twice: envelope, then arrival.\<close>

definition build_game_join_ack ::
  "ProtocolMessageBuilder \<Rightarrow> datetime \<Rightarrow> datetime \<Rightarrow> pyval \<Rightarrow> pyval \<Rightarrow> bool \<Rightarrow>
     exn + (string \<rightharpoonup> pyval)" where
  "build_game_join_ack b now arrival conversation_id mid accept =
     (case build_envelope b now ''GAME_JOIN_ACK'' conversation_id True of
        Inl e \<Rightarrow> Inl e
      | Inr envelope \<Rightarrow>
          Inr (envelope(''match_id'' \<mapsto> mid,
                        ''player_id'' \<mapsto> PStr (builder_player_id b),
                        ''arrival_timestamp'' \<mapsto> PStr (utc_now arrival),
                        ''accept'' \<mapsto> PBool accept)))"

text \<open>The message of the error raised for a choice that is not canonical.\<close>

definition invalid_parity_choice :: "string \<Rightarrow> string" where
  "invalid_parity_choice parity_choice =
     ''parity_choice must be lowercase 'even' or 'odd', got: '' @ [CHR 0x27] @
     parity_choice @ [CHR 0x27] @
     ''. This is a CRITICAL protocol requirement. See CLAUDE.md line 1920.''"

text \<open>\<open>build_choose_parity_response\<close> checks the choice before it builds the envelope.\<close>

definition build_choose_parity_response ::
  "ProtocolMessageBuilder \<Rightarrow> datetime \<Rightarrow> pyval \<Rightarrow> pyval \<Rightarrow> string \<Rightarrow>
     exn + (string \<rightharpoonup> pyval)" where
  "build_choose_parity_response b now conversation_id mid parity_choice =
     (if parity_choice \<notin> set [''even'', ''odd''] then
        Inl (ValueError (invalid_parity_choice parity_choice))
      else
        (case build_envelope b now ''CHOOSE_PARITY_RESPONSE'' conversation_id True of
           Inl e \<Rightarrow> Inl e
         | Inr envelope \<Rightarrow>
             Inr (envelope(''match_id'' \<mapsto> mid,
                           ''player_id'' \<mapsto> PStr (builder_player_id b),
                           ''parity_choice'' \<mapsto> PStr parity_choice))))"

definition build_result_acknowledgment ::
  "ProtocolMessageBuilder \<Rightarrow> datetime \<Rightarrow> pyval \<Rightarrow> pyval \<Rightarrow> pyval \<Rightarrow>
     exn + (string \<rightharpoonup> pyval)" where
  "build_result_acknowledgment b now conversation_id mid status =
     (case build_envelope b now ''RESULT_ACKNOWLEDGMENT'' conversation_id True of
        Inl e \<Rightarrow> Inl e
      | Inr envelope \<Rightarrow>
          Inr (envelope(''match_id'' \<mapsto> mid, ''status'' \<mapsto> status)))"

section \<open>agents/player/strategy.py\<close>

text \<open>
  The Agno agent and the Gemini service are external. What the engine sees of them is: whether
  an agent object was created, and what one call of \<open>agent.arun(prompt)\<close> does under the
  bounded wait: it does not answer in time, it raises, or it returns a response object.
\<close>

datatype Agent = GeminiAgent string

record StrategyEngine =
  mode :: string
  llm_timeout :: int
  agent :: "Agent option"

text \<open>
  \<open>StrategyEngine.__init__\<close>. \<open>agno_available\<close> is the module flag \<open>AGNO_AVAILABLE\<close>,
  \<open>api_key\<close> the environment variable \<open>GOOGLE_API_KEY\<close>. Creating the agent object, a
  call into the Agno library, is taken to succeed.
\<close>

definition StrategyEngine_init ::
  "string \<Rightarrow> string \<Rightarrow> int \<Rightarrow> bool \<Rightarrow> string option \<Rightarrow> exn + StrategyEngine" where
  "StrategyEngine_init md gemini_model_id timeout agno_available api_key =
     (if md \<notin> set [''random'', ''llm'', ''hybrid''] then
        Inl (ValueError (''Invalid mode: '' @ md @
                         ''. Must be 'random', 'llm', or 'hybrid'' @ [CHR 0x27]))
      else if timeout \<ge> 30 then
        Inl (ValueError (''llm_timeout must be < 30 seconds (protocol limit), got '' @
                         str_int timeout @ ''. Recommended: 25s for 5-second buffer.''))
      else if md \<in> set [''llm'', ''hybrid''] then
        (if \<not> agno_available then
           Inl (ImportError ''Agno framework not installed. Install with: pip install agno>=0.59.0'')
         else if api_key = None \<or> api_key = Some [] \<or>
                 api_key = Some ''your_google_gemini_api_key_here'' then
           (if md = ''llm'' then
              Inl (ValueError ''GOOGLE_API_KEY required for 'llm' mode. Set in .env file or use 'hybrid' mode for fallback.'')
            else Inr \<lparr>mode = md, llm_timeout = timeout, agent = None\<rparr>)
         else Inr \<lparr>mode = md, llm_timeout = timeout,
                   agent = Some (GeminiAgent gemini_model_id)\<rparr>)
      else Inr \<lparr>mode = md, llm_timeout = timeout, agent = None\<rparr>)"

text \<open>
  \<open>random.choice(["even", "odd"])\<close>. The random source is a sequence of draws; the
  \<open>n\<close>-th draw of an invocation picks the first element when \<open>g n\<close> holds.
\<close>

definition random_choice :: "(nat \<Rightarrow> bool) \<Rightarrow> nat \<Rightarrow> string" where
  "random_choice g n = (if g n then ''even'' else ''odd'')"

text \<open>
  The module logger is a \<open>logging.Logger\<close>. A call that passes keyword arguments other
  than those of \<open>Logger._log\<close> raises TypeError whenever the logger is enabled for the level
  of the call; below the logger's level the call returns at once. Levels are Python's numbers.
\<close>

definition INFO :: int where "INFO = 20"
definition WARNING :: int where "WARNING = 30"

definition log_with_kwargs :: "int \<Rightarrow> int \<Rightarrow> exn option" where
  "log_with_kwargs logger_level call_level =
     (if logger_level \<le> call_level
      then Some (TypeError ''Logger._log() got an unexpected keyword argument'')
      else None)"

text \<open>
  The shapes of a response that \<open>_llm_choice\<close> tells apart. A response with a
  \<open>content\<close> attribute holds a \<open>ParityChoice\<close>, a dictionary, or anything else (given by
  its \<open>str\<close>); a response without one is read through its optional attributes \<open>choice\<close>
  and \<open>reasoning\<close>.
\<close>

datatype llm_content =
    ContentParityChoice string string
  | ContentDict "(string \<times> pyval) list"
  | ContentOther string

datatype llm_response =
    WithContent llm_content
  | Direct "pyval option" "pyval option"

datatype agent_call =
    NoAnswerInTime
  | Raises exn
  | Returns llm_response

text \<open>\<open>str.lower()\<close> on ASCII text.\<close>

definition lower_char :: "char \<Rightarrow> char" where
  "lower_char c =
     (if c \<in> set ''ABCDEFGHIJKLMNOPQRSTUVWXYZ'' then char_of (of_char c + (32 :: nat)) else c)"

definition str_lower :: "string \<Rightarrow> string" where
  "str_lower s = map lower_char s"

text \<open>The choice that \<open>_llm_choice\<close> extracts from a response, before the final validation.\<close>

definition extract_choice :: "llm_response \<Rightarrow> exn + pyval" where
  "extract_choice response =
     (case response of
        WithContent (ContentParityChoice choice reasoning) \<Rightarrow> Inr (PStr choice)
      | WithContent (ContentDict d) \<Rightarrow> Inr (dict_get d ''choice'' (PStr ''even''))
      | WithContent (ContentOther text) \<Rightarrow>
          (if str_lower text \<notin> set [''even'', ''odd'']
           then Inl (ValueError (''Invalid LLM output: '' @ text))
           else Inr (PStr (str_lower text)))
      | Direct choice reasoning \<Rightarrow>
          (case choice of Some c \<Rightarrow> Inr c | None \<Rightarrow> Inr (PStr ''even'')))"

text \<open>
  \<open>_llm_choice\<close>, with the number of random draws made so far. \<open>prompt\<close> is what
  \<open>_format_context_prompt(context)\<close> gives: the prompt, or the exception it raises on a
  context it cannot format. The result is \<open>None\<close> when the agent call does not answer
  within the bounded wait.
\<close>

definition llm_choice ::
  "StrategyEngine \<Rightarrow> exn + string \<Rightarrow> agent_call \<Rightarrow> (nat \<Rightarrow> bool) \<Rightarrow> nat \<Rightarrow>
     ((exn + pyval) \<times> nat) option" where
  "llm_choice e prompt call g n =
     (case agent e of
        None \<Rightarrow> Some (Inl (RuntimeError ''Agent not initialized. Check GOOGLE_API_KEY in .env''), n)
      | Some a \<Rightarrow>
     (case prompt of
        Inl x \<Rightarrow> Some (Inl x, n)
      | Inr p \<Rightarrow>
     (case call of
        NoAnswerInTime \<Rightarrow> None
      | Raises x \<Rightarrow> Some (Inl x, n)
      | Returns response \<Rightarrow>
     (case extract_choice response of
        Inl x \<Rightarrow> Some (Inl x, n)
      | Inr choice \<Rightarrow>
          (if choice \<notin> set [PStr ''even'', PStr ''odd'']
           then Some (Inr (PStr (random_choice g n)), Suc n)
           else Some (Inr choice, n))))))"

text \<open>\<open>asyncio.wait_for\<close>: a call that does not finish in time is cancelled and TimeoutError raised.\<close>

definition wait_for :: "((exn + pyval) \<times> nat) option \<Rightarrow> nat \<Rightarrow> (exn + pyval) \<times> nat" where
  "wait_for r n = (case r of None \<Rightarrow> (Inl TimeoutError, n) | Some x \<Rightarrow> x)"

text \<open>
  \<open>choose_parity\<close>. The first statement, before any \<open>try\<close>, formats a log line with
  \<open>context.get('opponent')\<close>: a context that is not a dictionary raises there. The inner
  \<open>try\<close> has a handler for TimeoutError and one for every other \<open>Exception\<close>; an exception
  raised by the body of a handler, the \<open>raise\<close> of the second one included, leaves the
  inner statement and reaches the handler of the outer \<open>try\<close>, which again catches every
  \<open>Exception\<close>. What is not an \<open>Exception\<close> passes all three handlers and leaves the
  function. A mode outside the three falls off the end of the function, which returns
  \<open>None\<close>.
\<close>

definition choose_parity ::
  "StrategyEngine \<Rightarrow> int \<Rightarrow> pyval \<Rightarrow> exn + string \<Rightarrow> agent_call \<Rightarrow> (nat \<Rightarrow> bool) \<Rightarrow>
     exn + pyval" where
  "choose_parity e logger_level context prompt call g =
     (case obj_get context (PStr ''opponent'') PNone of
        Inl x \<Rightarrow> Inl x
      | Inr opponent \<Rightarrow>
     (let on_error = (\<lambda>x n. if mode e = ''llm'' then (Inl x, n)
                             else (Inr (PStr (random_choice g n)), Suc n));
          body =
            (if mode e = ''random'' then (Inr (PStr (random_choice g 0)), Suc 0)
             else if mode e \<in> set [''llm'', ''hybrid''] then
               (case wait_for (llm_choice e prompt call g 0) 0 of
                  (Inr choice, n) \<Rightarrow>
                    (case log_with_kwargs logger_level INFO of
                       None \<Rightarrow> (Inr choice, n)
                     | Some x \<Rightarrow> on_error x n)
                | (Inl x, n) \<Rightarrow>
                    (if x = TimeoutError then
                       (case log_with_kwargs logger_level WARNING of
                          None \<Rightarrow> (Inr (PStr (random_choice g n)), Suc n)
                        | Some y \<Rightarrow> (Inl y, n))
                     else if is_Exception x then on_error x n
                     else (Inl x, n)))
             else (Inr PNone, 0))
      in case body of
           (Inr v, n) \<Rightarrow> Inr v
         | (Inl x, n) \<Rightarrow>
             (if is_Exception x then Inr (PStr (random_choice g n)) else Inl x)))"

section \<open>agents/player/handlers.py\<close>

record ToolHandlers =
  state :: PlayerState
  strategy :: StrategyEngine
  protocol :: ProtocolMessageBuilder

text \<open>
  \<open>ToolHandlers.__init__\<close>: the builder is made for the state's player, and receives the
  state's token when that is already set (a non-empty string).
\<close>

definition ToolHandlers_init :: "PlayerState \<Rightarrow> StrategyEngine \<Rightarrow> exn + ToolHandlers" where
  "ToolHandlers_init st strat =
     (case ProtocolMessageBuilder_init (player_id st) of
        Inl x \<Rightarrow> Inl x
      | Inr b \<Rightarrow>
          Inr \<lparr>state = st, strategy = strat,
               protocol = (case auth_token st of
                             None \<Rightarrow> b
                           | Some tok \<Rightarrow> if tok = [] then b else builder_set_auth_token b tok)\<rparr>)"

definition update_auth_token :: "ToolHandlers \<Rightarrow> string \<Rightarrow> ToolHandlers" where
  "update_auth_token h tok =
     h\<lparr>state := set_auth_token (state h) tok,
       protocol := builder_set_auth_token (protocol h) tok\<rparr>"

text \<open>The context that the handler hands to the strategy engine.\<close>

definition handler_context :: "ToolHandlers \<Rightarrow> (string \<times> pyval) list \<Rightarrow> pyval" where
  "handler_context h params =
     PDict [(''opponent'', dict_get params ''opponent_id'' (PStr ''unknown'')),
            (''standings'', dict_get params ''standings'' (PDict [])),
            (''history'', PList (map PDict (get_match_history (state h) (Some 10)))),
            (''deadline'', dict_get params ''deadline'' PNone)]"

text \<open>
  The handler \<open>choose_parity\<close>. The console panel is printed before the \<open>try\<close>, from
  request data that nothing has validated: \<open>console\<close> is the exception it raises, if any.
  \<open>engine_result\<close> is what \<open>await self.strategy.choose_parity(context)\<close> does: the handler
  is written against any strategy object. Inside the \<open>try\<close>, a value outside the canonical
  set is replaced by \<open>even\<close>; a TimeoutError leads to the emergency response; every other
  exception leaves the handler (the log line written on the way is outside the model).
\<close>

definition handler_choose_parity ::
  "ToolHandlers \<Rightarrow> (string \<times> pyval) list \<Rightarrow> exn option \<Rightarrow> exn + pyval \<Rightarrow> datetime \<Rightarrow>
     exn + (string \<rightharpoonup> pyval)" where
  "handler_choose_parity h params console engine_result now =
     (let conversation_id = dict_get params ''conversation_id'' (PStr ''unknown'');
          mid = dict_get params ''match_id'' (PStr ''unknown'')
      in case console of
           Some x \<Rightarrow> Inl x
         | None \<Rightarrow>
             (let body =
                    (case engine_result of
                       Inl x \<Rightarrow> Inl x
                     | Inr parity_choice \<Rightarrow>
                         build_choose_parity_response (protocol h) now conversation_id mid
                           (case parity_choice of
                              PStr c \<Rightarrow> if c \<notin> set [''even'', ''odd''] then ''even'' else c
                            | _ \<Rightarrow> ''even''))
              in case body of
                   Inr response \<Rightarrow> Inr response
                 | Inl TimeoutError \<Rightarrow>
                     build_choose_parity_response (protocol h) now conversation_id mid ''even''
                 | Inl x \<Rightarrow> Inl x))"

section \<open>Example inputs\<close>

definition example_clock :: datetime where
  "example_clock = \<lparr>year = 2025, month = 1, day = 15, hour = 10, minute = 30, second = 0,
                      microsecond = 123456\<rparr>"

text \<open>The result of match \<open>k\<close>: player P01 wins the odd matches, P02 the even ones.\<close>

definition example_result :: "int \<Rightarrow> (string \<times> pyval) list" where
  "example_result k =
     [(''match_id'', PInt k),
      (''winner'', PStr (if k mod 2 = 1 then ''P01'' else ''P02'')),
      (''drawn_number'', PInt 4),
      (''choices'', PDict [(''P01'', PStr ''even''), (''P02'', PStr ''odd'')]),
      (''opponent_id'', PStr ''P02'')]"

definition example_run :: "int list \<Rightarrow> ((string \<times> pyval) list \<times> datetime) list" where
  "example_run ks = map (\<lambda>k. (example_result k, example_clock)) ks"

text \<open>A registered player P01 and its handlers, with a strategy object in mode \<open>llm\<close>.\<close>

definition example_handlers :: ToolHandlers where
  "example_handlers =
     \<lparr>state = \<lparr>player_id = ''P01'', display_name = ''Player'', max_history_entries = 100,
                persistence_enabled = False, state_file_path = None,
                auth_token = Some ''auth-token-12345'', registered = True,
                stats = \<lparr>wins = 0, draws = 0, losses = 0, total_points = 0,
                         total_matches = 0\<rparr>,
                match_history = []\<rparr>,
      strategy = \<lparr>mode = ''llm'', llm_timeout = 25,
                   agent = Some (GeminiAgent ''gemini-2.0-flash-exp'')\<rparr>,
      protocol = \<lparr>builder_player_id = ''P01'',
                   builder_auth_token = Some ''auth-token-12345''\<rparr>\<rparr>"

definition example_params :: "(string \<times> pyval) list" where
  "example_params =
     [(''conversation_id'', PStr ''conv-001''), (''match_id'', PStr ''R1M1''),
      (''opponent_id'', PStr ''P02'')]"

text \<open>A clock reading that falls on a whole second.\<close>

definition example_whole_second :: datetime where
  "example_whole_second =
     \<lparr>year = 2025, month = 1, day = 15, hour = 10, minute = 30, second = 0,
      microsecond = 0\<rparr>"

section \<open>Verified properties\<close>

section \<open>Match state: authentication token and history projection\<close>

text \<open>
  C9. Setting the authentication token twice with the same token leaves the state (token,
  registered flag, statistics, history and every other field) exactly as setting it once.
\<close>

theorem set_auth_token_idempotent:
  "set_auth_token (set_auth_token s t) t = set_auth_token s t"
  by (simp add: set_auth_token_def maybe_save_state_def)

text \<open>
  C10. With \<open>limit = 0\<close> the history projection returns the whole history, oldest first,
  exactly as with no limit: the limit is applied only when it is a non-zero value.
\<close>

theorem get_match_history_limit_zero:
  "get_match_history s (Some 0) = map asdict (match_history s) \<and>
   get_match_history s (Some 0) = get_match_history s None"
  by (simp add: get_match_history_def)

section \<open>Match state: statistics\<close>

lemma update_inv:
  assumes "update_from_result s m now = Inr s'" and "stats_inv s n"
  shows "stats_inv s' (n + 1)"
  using assms
  by (auto simp: update_from_result_def stats_inv_def maybe_save_state_def Let_def
           split: sum.splits if_splits)

lemma update_fields:
  assumes "update_from_result s m now = Inr s'"
  shows "player_id s' = player_id s" "max_history_entries s' = max_history_entries s"
  using assms
  by (auto simp: update_from_result_def maybe_save_state_def Let_def
           split: sum.splits if_splits)

lemma apply_results_append:
  "apply_results s (xs @ ys) =
     (case apply_results s xs of Inl e \<Rightarrow> Inl e | Inr s' \<Rightarrow> apply_results s' ys)"
  by (induction xs arbitrary: s) (auto split: sum.splits)

lemma apply_results_take:
  assumes "apply_results s ms = Inr s'"
  shows "\<exists>sk. apply_results s (take k ms) = Inr sk"
proof -
  have "apply_results s (take k ms @ drop k ms) = Inr s'" using assms by simp
  then show ?thesis
    unfolding apply_results_append by (auto split: sum.splits)
qed

lemma apply_results_inv:
  "apply_results s ms = Inr s' \<Longrightarrow> stats_inv s n \<Longrightarrow> stats_inv s' (n + int (length ms))"
proof (induction ms arbitrary: s n)
  case Nil
  then show ?case by simp
next
  case (Cons a ms)
  obtain m now where a: "a = (m, now)" by (cases a)
  from Cons.prems(1) a obtain s1 where
    s1: "update_from_result s m now = Inr s1" and rest: "apply_results s1 ms = Inr s'"
    by (auto split: sum.splits)
  from update_inv [OF s1 Cons.prems(2)] have "stats_inv s1 (n + 1)" .
  from Cons.IH [OF rest this] show ?case by (simp add: add.assoc)
qed

lemma init_fresh:
  assumes "PlayerState_init pid name mx persist path file = Inr s0"
    and "\<not> persist \<or> file = None"
  shows "stats_inv s0 0" "match_history s0 = []" "player_id s0 = pid"
    "max_history_entries s0 = mx"
  using assms
  by (auto simp: PlayerState_init_def load_state_def stats_inv_def Let_def
           split: if_splits)

lemma example_update: "\<exists>s'. update_from_result s (example_result k) now = Inr s'"
  by (simp add: update_from_result_def example_result_def dict_get_def obj_get_def Let_def
        split: prod.splits)

lemma example_run_returns: "\<exists>s'. apply_results s (example_run ks) = Inr s'"
proof (induction ks arbitrary: s)
  case Nil
  then show ?case by (simp add: example_run_def)
next
  case (Cons k ks)
  obtain s1 where "update_from_result s (example_result k) example_clock = Inr s1"
    using example_update by blast
  with Cons [of s1] show ?case by (simp add: example_run_def)
qed

text \<open>
  C4. A state constructed without a restored snapshot starts with all counters at zero.
  Whenever a run of result notifications returns, then after each of its calls, the
  \<open>k\<close>-th included, \<open>total_matches\<close> is \<open>k\<close>, wins, draws and losses add up to \<open>k\<close>, and
  \<open>total_points\<close> is three times the wins plus the draws.
\<close>

theorem stats_invariant_after_every_result:
  assumes "PlayerState_init pid name mx persist path file = Inr s0"
    and "\<not> persist \<or> file = None"
    and "apply_results s0 ms = Inr s"
    and "k \<le> length ms"
  shows "\<exists>sk. apply_results s0 (take k ms) = Inr sk \<and>
           total_matches (stats sk) = int k \<and>
           wins (stats sk) + draws (stats sk) + losses (stats sk) = int k \<and>
           total_points (stats sk) = 3 * wins (stats sk) + 1 * draws (stats sk)"
proof -
  from apply_results_take [OF assms(3)] obtain sk where
    sk: "apply_results s0 (take k ms) = Inr sk" by blast
  from init_fresh(1) [OF assms(1,2)] have "stats_inv s0 0" .
  from apply_results_inv [OF sk this] assms(4) have "stats_inv sk (int k)" by simp
  with sk show ?thesis by (auto simp: stats_inv_def)
qed

theorem stats_invariant_after_every_result_witness:
  "\<exists>s0 sk. PlayerState_init ''P01'' ''Player'' 100 False None None = Inr s0 \<and>
     apply_results s0 (take 2 (example_run [1, 2, 3])) = Inr sk \<and>
     total_matches (stats sk) = 2 \<and>
     wins (stats sk) + draws (stats sk) + losses (stats sk) = 2 \<and>
     total_points (stats sk) = 3 * wins (stats sk) + 1 * draws (stats sk)"
proof -
  obtain s0 where i: "PlayerState_init ''P01'' ''Player'' 100 False None None = Inr s0"
    by (simp add: PlayerState_init_def)
  obtain s where r: "apply_results s0 (example_run [1, 2, 3]) = Inr s"
    using example_run_returns by blast
  have k: "2 \<le> length (example_run [1, 2, 3])" by (simp add: example_run_def)
  from stats_invariant_after_every_result [OF i _ r k] i show ?thesis
    by auto
qed

section \<open>Match state: bounded history\<close>

lemma update_history:
  assumes "update_from_result s m now = Inr s'"
  shows "match_history s' =
     (let h = match_history s @ [spec_match_record (player_id s) m now]
      in if int (length h) > max_history_entries s
         then slice_from h (- max_history_entries s) else h)"
  using assms
  by (auto simp: update_from_result_def maybe_save_state_def Let_def spec_match_record_def
           split: sum.splits if_splits)

lemma trim_step:
  assumes "0 < mx"
  shows "(let h = drop (length R - nat mx) R @ [r]
          in if int (length h) > mx then slice_from h (- mx) else h)
         = drop (length (R @ [r]) - nat mx) (R @ [r])"
proof (cases "nat mx \<le> length R")
  case True
  then have "Suc (length R - nat mx) = Suc (length R) - nat mx" by simp
  with True assms show ?thesis by (auto simp: slice_from_def Let_def)
next
  case False
  with assms show ?thesis by (auto simp: slice_from_def Let_def)
qed

lemma apply_results_history:
  assumes "apply_results s ms = Inr s'"
    and "0 < max_history_entries s"
    and "match_history s = drop (length R - nat (max_history_entries s)) R"
  shows "match_history s' =
           drop (length R + length ms - nat (max_history_entries s))
             (R @ map (\<lambda>(m, now). spec_match_record (player_id s) m now) ms)"
  using assms
proof (induction ms arbitrary: s R)
  case Nil
  then show ?case by simp
next
  case (Cons a ms)
  obtain m now where a: "a = (m, now)" by (cases a)
  from Cons.prems(1) a obtain s1 where
    s1: "update_from_result s m now = Inr s1" and rest: "apply_results s1 ms = Inr s'"
    by (auto split: sum.splits)
  let ?r = "spec_match_record (player_id s) m now"
  have h1: "match_history s1 =
              drop (length (R @ [?r]) - nat (max_history_entries s)) (R @ [?r])"
    using update_history [OF s1] trim_step [OF Cons.prems(2), of R ?r] Cons.prems(3)
    by simp
  have f: "player_id s1 = player_id s" "max_history_entries s1 = max_history_entries s"
    using update_fields [OF s1] by simp_all
  from Cons.IH [of s1 "R @ [?r]"] rest Cons.prems(2) h1 f
  show ?case by (simp add: a)
qed

text \<open>
  C5. With \<open>max_history_entries = 5\<close>, a state constructed without a restored snapshot,
  and ten result notifications that all return: the history has exactly five entries,
  and they are the records of the sixth to the tenth notification, in the order of their
  application.
\<close>

theorem history_keeps_last_five_of_ten:
  assumes "PlayerState_init pid name 5 persist path file = Inr s0"
    and "\<not> persist \<or> file = None"
    and "length ms = 10"
    and "apply_results s0 ms = Inr s"
  shows "length (match_history s) = 5 \<and>
         match_history s = map (\<lambda>(m, now). spec_match_record pid m now) (drop 5 ms)"
proof -
  have f: "match_history s0 = []" "player_id s0 = pid" "max_history_entries s0 = 5"
    using init_fresh [OF assms(1,2)] by simp_all
  from apply_results_history [OF assms(4), of "[]"] f assms(3)
  have "match_history s = drop 5 (map (\<lambda>(m, now). spec_match_record pid m now) ms)"
    by simp
  then show ?thesis using assms(3) by (simp add: drop_map)
qed

theorem history_keeps_last_five_of_ten_witness:
  "\<exists>s0 s. PlayerState_init ''P01'' ''Player'' 5 False None None = Inr s0 \<and>
     apply_results s0 (example_run [1, 2, 3, 4, 5, 6, 7, 8, 9, 10]) = Inr s \<and>
     length (match_history s) = 5 \<and>
     match_history s =
       map (\<lambda>k. spec_match_record ''P01'' (example_result k) example_clock) [6, 7, 8, 9, 10]"
proof -
  obtain s0 where i: "PlayerState_init ''P01'' ''Player'' 5 False None None = Inr s0"
    by (simp add: PlayerState_init_def)
  obtain s where
    r: "apply_results s0 (example_run [1, 2, 3, 4, 5, 6, 7, 8, 9, 10]) = Inr s"
    using example_run_returns by blast
  have l: "length (example_run [1, 2, 3, 4, 5, 6, 7, 8, 9, 10]) = 10"
    by (simp add: example_run_def)
  from history_keeps_last_five_of_ten [OF i _ l r] i r show ?thesis
    by (auto simp: example_run_def)
qed

section \<open>Protocol message builder\<close>

lemma build_envelope_unset:
  assumes "builder_auth_token b = None \<or> builder_auth_token b = Some []"
  shows "build_envelope b now mt c True =
           Inl (ValueError (''auth_token is required for '' @ mt @
                            '' but not set. Call set_auth_token() after registration.''))"
  using assms by (auto simp: build_envelope_def auth_token_required_def)

lemma build_envelope_token:
  assumes "builder_auth_token b = Some tok" and "tok \<noteq> []"
  shows "\<exists>env. build_envelope b now mt c True = Inr env \<and>
           env ''auth_token'' = Some (PStr tok) \<and>
           env ''message_type'' = Some (PStr mt)"
  using assms by (simp add: build_envelope_def)

text \<open>
  C6, as the claim states it, fails for the empty token: after \<open>set_auth_token("")\<close> an
  authenticated builder still raises the configuration error.
\<close>

theorem empty_token_still_refused:
  "ProtocolMessageBuilder_init ''P01'' =
     Inr \<lparr>builder_player_id = ''P01'', builder_auth_token = None\<rparr> \<and>
   build_game_join_ack
     (builder_set_auth_token \<lparr>builder_player_id = ''P01'', builder_auth_token = None\<rparr> [])
     example_clock example_clock (PStr ''conv-001'') (PStr ''R1M1'') True =
     Inl (ValueError
       ''auth_token is required for GAME_JOIN_ACK but not set. Call set_auth_token() after registration.'')"
  by (simp add: ProtocolMessageBuilder_init_def build_game_join_ack_def
        builder_set_auth_token_def build_envelope_def auth_token_required_def)

text \<open>
  C6, amended. On a builder fresh from its constructor each of the three authenticated
  builders (the choice response given a canonical choice) raises the configuration error
  whose message names its message type: \<open>auth_token is required for T but not set\<close>, with
  \<open>T\<close> the message type. After \<open>set_auth_token(tok)\<close> with a non-empty token the same call
  returns a message whose \<open>auth_token\<close> field is \<open>tok\<close>. An empty token counts as not set:
  after \<open>set_auth_token("")\<close> each of the three calls raises the same error as before.
\<close>

theorem authenticated_builders_require_token:
  assumes "ProtocolMessageBuilder_init pid = Inr b"
    and "tok \<noteq> []"
    and "choice \<in> {''even'', ''odd''}"
  shows
   "build_game_join_ack b now arrival c m accept =
      Inl (ValueError
        ''auth_token is required for GAME_JOIN_ACK but not set. Call set_auth_token() after registration.'') \<and>
    build_choose_parity_response b now c m choice =
      Inl (ValueError
        ''auth_token is required for CHOOSE_PARITY_RESPONSE but not set. Call set_auth_token() after registration.'') \<and>
    build_result_acknowledgment b now c m status =
      Inl (ValueError
        ''auth_token is required for RESULT_ACKNOWLEDGMENT but not set. Call set_auth_token() after registration.'') \<and>
    (\<exists>msg. build_game_join_ack (builder_set_auth_token b tok) now arrival c m accept
              = Inr msg \<and> msg ''auth_token'' = Some (PStr tok)) \<and>
    (\<exists>msg. build_choose_parity_response (builder_set_auth_token b tok) now c m choice
              = Inr msg \<and> msg ''auth_token'' = Some (PStr tok)) \<and>
    (\<exists>msg. build_result_acknowledgment (builder_set_auth_token b tok) now c m status
              = Inr msg \<and> msg ''auth_token'' = Some (PStr tok)) \<and>
    build_game_join_ack (builder_set_auth_token b []) now arrival c m accept =
      Inl (ValueError
        ''auth_token is required for GAME_JOIN_ACK but not set. Call set_auth_token() after registration.'') \<and>
    build_choose_parity_response (builder_set_auth_token b []) now c m choice =
      Inl (ValueError
        ''auth_token is required for CHOOSE_PARITY_RESPONSE but not set. Call set_auth_token() after registration.'') \<and>
    build_result_acknowledgment (builder_set_auth_token b []) now c m status =
      Inl (ValueError
        ''auth_token is required for RESULT_ACKNOWLEDGMENT but not set. Call set_auth_token() after registration.'')"
proof -
  from assms(1) have none: "builder_auth_token b = None \<or> builder_auth_token b = Some []"
    by (auto simp: ProtocolMessageBuilder_init_def split: if_splits)
  have empty: "builder_auth_token (builder_set_auth_token b []) = None \<or>
               builder_auth_token (builder_set_auth_token b []) = Some []"
    by (simp add: builder_set_auth_token_def)
  have some: "builder_auth_token (builder_set_auth_token b tok) = Some tok"
    by (simp add: builder_set_auth_token_def)
  have canon: "\<not> choice \<notin> set [''even'', ''odd'']" using assms(3) by auto
  note before = build_envelope_unset [OF none]
  note blank = build_envelope_unset [OF empty]
  note after = build_envelope_token [OF some assms(2)]
  have 1: "build_game_join_ack b now arrival c m accept =
      Inl (ValueError
        ''auth_token is required for GAME_JOIN_ACK but not set. Call set_auth_token() after registration.'')"
    by (simp add: build_game_join_ack_def before)
  have 2: "build_choose_parity_response b now c m choice =
      Inl (ValueError
        ''auth_token is required for CHOOSE_PARITY_RESPONSE but not set. Call set_auth_token() after registration.'')"
    using canon by (simp add: build_choose_parity_response_def before)
  have 3: "build_result_acknowledgment b now c m status =
      Inl (ValueError
        ''auth_token is required for RESULT_ACKNOWLEDGMENT but not set. Call set_auth_token() after registration.'')"
    by (simp add: build_result_acknowledgment_def before)
  have 4: "\<exists>msg. build_game_join_ack (builder_set_auth_token b tok) now arrival c m accept
              = Inr msg \<and> msg ''auth_token'' = Some (PStr tok)"
    using after [of now "''GAME_JOIN_ACK''" c]
    by (auto simp: build_game_join_ack_def)
  have 5: "\<exists>msg. build_choose_parity_response (builder_set_auth_token b tok) now c m choice
              = Inr msg \<and> msg ''auth_token'' = Some (PStr tok)"
    using after [of now "''CHOOSE_PARITY_RESPONSE''" c] canon
    by (auto simp: build_choose_parity_response_def)
  have 6: "\<exists>msg. build_result_acknowledgment (builder_set_auth_token b tok) now c m status
              = Inr msg \<and> msg ''auth_token'' = Some (PStr tok)"
    using after [of now "''RESULT_ACKNOWLEDGMENT''" c]
    by (auto simp: build_result_acknowledgment_def)
  have 7: "build_game_join_ack (builder_set_auth_token b []) now arrival c m accept =
      Inl (ValueError
        ''auth_token is required for GAME_JOIN_ACK but not set. Call set_auth_token() after registration.'')"
    by (simp add: build_game_join_ack_def blank)
  have 8: "build_choose_parity_response (builder_set_auth_token b []) now c m choice =
      Inl (ValueError
        ''auth_token is required for CHOOSE_PARITY_RESPONSE but not set. Call set_auth_token() after registration.'')"
    using canon by (simp add: build_choose_parity_response_def blank)
  have 9: "build_result_acknowledgment (builder_set_auth_token b []) now c m status =
      Inl (ValueError
        ''auth_token is required for RESULT_ACKNOWLEDGMENT but not set. Call set_auth_token() after registration.'')"
    by (simp add: build_result_acknowledgment_def blank)
  from 1 2 3 4 5 6 7 8 9 show ?thesis by blast
qed

theorem authenticated_builders_require_token_witness:
  "ProtocolMessageBuilder_init ''P01'' =
     Inr \<lparr>builder_player_id = ''P01'', builder_auth_token = None\<rparr> \<and>
   build_choose_parity_response \<lparr>builder_player_id = ''P01'', builder_auth_token = None\<rparr>
     example_clock (PStr ''conv-001'') (PStr ''R1M1'') ''odd'' =
     Inl (ValueError
       ''auth_token is required for CHOOSE_PARITY_RESPONSE but not set. Call set_auth_token() after registration.'') \<and>
   (\<exists>msg. build_choose_parity_response
            (builder_set_auth_token \<lparr>builder_player_id = ''P01'', builder_auth_token = None\<rparr>
               ''auth-token-12345'')
            example_clock (PStr ''conv-001'') (PStr ''R1M1'') ''odd'' = Inr msg \<and>
          msg ''auth_token'' = Some (PStr ''auth-token-12345''))"
proof -
  have i: "ProtocolMessageBuilder_init ''P01'' =
             Inr \<lparr>builder_player_id = ''P01'', builder_auth_token = None\<rparr>"
    by (simp add: ProtocolMessageBuilder_init_def)
  have t: "''auth-token-12345'' \<noteq> []" by simp
  have c: "''odd'' \<in> {''even'', ''odd''}" by simp
  from authenticated_builders_require_token [OF i t c] i show ?thesis by blast
qed

text \<open>
  C7. A choice outside the canonical set, in whatever state the builder is, raises the
  validation error whose message quotes the offending value:
  \<open>parity_choice must be lowercase 'even' or 'odd', got: 'V'\<close> and so on, with \<open>V\<close> the
  argument; so do \<open>Even\<close>, \<open>ODD\<close>, the empty string and \<open>left\<close>. A canonical choice, on a
  builder holding a non-empty token, returns a message whose \<open>parity_choice\<close> field is
  the argument, unchanged.
\<close>

theorem choose_parity_response_validates_choice:
  "(choice \<notin> {''even'', ''odd''} \<longrightarrow>
      build_choose_parity_response b now c m choice =
        Inl (ValueError
          (''parity_choice must be lowercase 'even' or 'odd', got: '' @ [CHR 0x27] @ choice @
           [CHR 0x27] @
           ''. This is a CRITICAL protocol requirement. See CLAUDE.md line 1920.''))) \<and>
   build_choose_parity_response b now c m ''Even'' =
     Inl (ValueError
       ''parity_choice must be lowercase 'even' or 'odd', got: 'Even'. This is a CRITICAL protocol requirement. See CLAUDE.md line 1920.'') \<and>
   build_choose_parity_response b now c m ''ODD'' =
     Inl (ValueError
       ''parity_choice must be lowercase 'even' or 'odd', got: 'ODD'. This is a CRITICAL protocol requirement. See CLAUDE.md line 1920.'') \<and>
   build_choose_parity_response b now c m [] =
     Inl (ValueError
       (''parity_choice must be lowercase 'even' or 'odd', got: '' @ [CHR 0x27, CHR 0x27] @
        ''. This is a CRITICAL protocol requirement. See CLAUDE.md line 1920.'')) \<and>
   build_choose_parity_response b now c m ''left'' =
     Inl (ValueError
       ''parity_choice must be lowercase 'even' or 'odd', got: 'left'. This is a CRITICAL protocol requirement. See CLAUDE.md line 1920.'') \<and>
   (choice \<in> {''even'', ''odd''} \<and> builder_auth_token b = Some tok \<and> tok \<noteq> [] \<longrightarrow>
      (\<exists>msg. build_choose_parity_response b now c m choice = Inr msg \<and>
             msg ''parity_choice'' = Some (PStr choice) \<and>
             msg ''message_type'' = Some (PStr ''CHOOSE_PARITY_RESPONSE'')))"
proof -
  have inv: "build_choose_parity_response b now c m x =
               Inl (ValueError
                 (''parity_choice must be lowercase 'even' or 'odd', got: '' @ [CHR 0x27] @ x @
                  [CHR 0x27] @
                  ''. This is a CRITICAL protocol requirement. See CLAUDE.md line 1920.''))"
    if "x \<notin> {''even'', ''odd''}" for x
    using that by (simp add: build_choose_parity_response_def invalid_parity_choice_def)
  have ok: "\<exists>msg. build_choose_parity_response b now c m choice = Inr msg \<and>
              msg ''parity_choice'' = Some (PStr choice) \<and>
              msg ''message_type'' = Some (PStr ''CHOOSE_PARITY_RESPONSE'')"
    if "choice \<in> {''even'', ''odd''}" and "builder_auth_token b = Some tok" and "tok \<noteq> []"
    using build_envelope_token [OF that(2,3), of now "''CHOOSE_PARITY_RESPONSE''" c] that(1)
    by (auto simp: build_choose_parity_response_def)
  show ?thesis
    using inv [of choice] inv [of "''Even''"] inv [of "''ODD''"] inv [of "[]"]
      inv [of "''left''"] ok
    by simp
qed

theorem choose_parity_response_validates_choice_witness:
  "''Left'' \<notin> {''even'', ''odd''} \<and>
   build_choose_parity_response
     \<lparr>builder_player_id = ''P01'', builder_auth_token = Some ''auth-token-12345''\<rparr>
     example_clock (PStr ''conv-001'') (PStr ''R1M1'') ''Left'' =
     Inl (ValueError
       ''parity_choice must be lowercase 'even' or 'odd', got: 'Left'. This is a CRITICAL protocol requirement. See CLAUDE.md line 1920.'') \<and>
   (\<exists>msg. build_choose_parity_response
            \<lparr>builder_player_id = ''P01'', builder_auth_token = Some ''auth-token-12345''\<rparr>
            example_clock (PStr ''conv-001'') (PStr ''R1M1'') ''odd'' = Inr msg \<and>
          msg ''parity_choice'' = Some (PStr ''odd''))"
  using choose_parity_response_validates_choice
          [of "''Left''"
              "\<lparr>builder_player_id = ''P01'', builder_auth_token = Some ''auth-token-12345''\<rparr>"
              example_clock "PStr ''conv-001''" "PStr ''R1M1''" "''auth-token-12345''"]
        choose_parity_response_validates_choice
          [of "''odd''"
              "\<lparr>builder_player_id = ''P01'', builder_auth_token = Some ''auth-token-12345''\<rparr>"
              example_clock "PStr ''conv-001''" "PStr ''R1M1''" "''auth-token-12345''"]
  by auto

section \<open>Decision engine\<close>

lemma random_choice_canonical:
  "PStr (random_choice g n) \<in> {PStr ''even'', PStr ''odd''}"
  by (simp add: random_choice_def)

lemma llm_choice_canonical:
  assumes "llm_choice e prompt call g n = Some (Inr v, k)"
  shows "v \<in> {PStr ''even'', PStr ''odd''}"
  using assms
  by (auto simp: llm_choice_def random_choice_def
           split: option.splits sum.splits agent_call.splits if_splits)

lemma wait_for_canonical:
  assumes "wait_for (llm_choice e prompt call g n) n = (Inr v, k)"
  shows "v \<in> {PStr ''even'', PStr ''odd''}"
proof (cases "llm_choice e prompt call g n")
  case None
  with assms show ?thesis by (simp add: wait_for_def)
next
  case (Some r)
  with assms have "llm_choice e prompt call g n = Some (Inr v, k)"
    by (simp add: wait_for_def)
  then show ?thesis by (rule llm_choice_canonical)
qed

lemma extract_choice_exception: "extract_choice r = Inl x \<Longrightarrow> is_Exception x"
  by (auto simp: extract_choice_def
           split: llm_response.splits llm_content.splits if_splits option.splits)

lemma wait_for_exception:
  assumes "wait_for (llm_choice e prompt call g n) n = (Inl x, k)"
    and "\<forall>y. call = Raises y \<longrightarrow> is_Exception y"
    and "\<forall>y. prompt = Inl y \<longrightarrow> is_Exception y"
  shows "is_Exception x"
  using assms
  by (auto simp: wait_for_def llm_choice_def
           split: option.splits sum.splits agent_call.splits if_splits
           dest: extract_choice_exception)

text \<open>The body of the outer \<open>try\<close>, a function of what the bounded wait gave.\<close>

lemma choose_parity_unfold:
  assumes "obj_get ctx (PStr ''opponent'') PNone = Inr opp"
    and "mode e \<noteq> ''random''" and "mode e \<in> {''llm'', ''hybrid''}"
    and "wait_for (llm_choice e prompt call g 0) 0 = (r, n)"
  shows "choose_parity e lvl ctx prompt call g =
     (case r of
        Inr choice \<Rightarrow>
          (case log_with_kwargs lvl INFO of
             None \<Rightarrow> Inr choice
           | Some x \<Rightarrow> Inr (PStr (random_choice g n)))
      | Inl x \<Rightarrow>
          (if x = TimeoutError then Inr (PStr (random_choice g n))
           else if is_Exception x then Inr (PStr (random_choice g n))
           else Inl x))"
proof -
  have t: "is_Exception (TypeError m)" for m by simp
  show ?thesis
    using assms
    by (auto simp: choose_parity_def Let_def log_with_kwargs_def
             split: sum.splits option.splits)
qed

lemma choose_parity_random_mode:
  assumes "obj_get ctx (PStr ''opponent'') PNone = Inr opp" and "mode e = ''random''"
  shows "choose_parity e lvl ctx prompt call g = Inr (PStr (random_choice g 0))"
  using assms by (simp add: choose_parity_def Let_def)

lemma choose_parity_canonical:
  assumes "mode e \<in> {''random'', ''llm'', ''hybrid''}"
    and "choose_parity e lvl ctx prompt call g = Inr v"
  shows "v \<in> {PStr ''even'', PStr ''odd''}"
proof (cases "obj_get ctx (PStr ''opponent'') PNone")
  case (Inl x)
  with assms(2) show ?thesis by (simp add: choose_parity_def)
next
  case (Inr opp)
  show ?thesis
  proof (cases "mode e = ''random''")
    case True
    from choose_parity_random_mode [OF Inr True, of lvl prompt call g] assms(2)
      random_choice_canonical [of g 0]
    show ?thesis by simp
  next
    case False
    with assms(1) have m: "mode e \<in> {''llm'', ''hybrid''}" by auto
    obtain r n where w: "wait_for (llm_choice e prompt call g 0) 0 = (r, n)"
      by (cases "wait_for (llm_choice e prompt call g 0) 0")
    note u = choose_parity_unfold [OF Inr False m w, of lvl]
    show ?thesis
    proof (cases r)
      case (Inr c)
      with w have c: "c \<in> {PStr ''even'', PStr ''odd''}"
        using wait_for_canonical by blast
      have "v = c \<or> v = PStr (random_choice g n)"
        using assms(2) u Inr by (auto split: option.splits)
      with c random_choice_canonical [of g n] show ?thesis by blast
    next
      case (Inl x)
      have "v = PStr (random_choice g n)"
        using assms(2) u Inl by (auto split: if_splits)
      with random_choice_canonical [of g n] show ?thesis by blast
    qed
  qed
qed

text \<open>
  What leaves \<open>choose_parity\<close> as an exception is either the AttributeError of the first
  statement on a context that is not a dictionary, or something that is not an
  \<open>Exception\<close>: no \<open>Exception\<close> raised by the reasoning call is ever propagated, in any mode.
\<close>

lemma choose_parity_raises:
  assumes "choose_parity e lvl ctx prompt call g = Inl x"
  shows "obj_get ctx (PStr ''opponent'') PNone = Inl x \<or> \<not> is_Exception x"
proof (cases "obj_get ctx (PStr ''opponent'') PNone")
  case (Inl y)
  with assms show ?thesis by (simp add: choose_parity_def)
next
  case (Inr opp)
  with assms show ?thesis
    by (auto simp: choose_parity_def Let_def split: prod.splits sum.splits if_splits)
qed

lemma choose_parity_returns:
  assumes "mode e \<in> {''random'', ''llm'', ''hybrid''}"
    and "ctx = PDict d"
    and "\<forall>y. call = Raises y \<longrightarrow> is_Exception y"
    and "\<forall>y. prompt = Inl y \<longrightarrow> is_Exception y"
  shows "\<exists>v. choose_parity e lvl ctx prompt call g = Inr v"
proof -
  have o: "obj_get ctx (PStr ''opponent'') PNone = Inr (dict_get d ''opponent'' PNone)"
    by (simp add: obj_get_def assms(2))
  show ?thesis
  proof (cases "mode e = ''random''")
    case True
    from choose_parity_random_mode [OF o True] show ?thesis by blast
  next
    case False
    with assms(1) have m: "mode e \<in> {''llm'', ''hybrid''}" by auto
    obtain r n where w: "wait_for (llm_choice e prompt call g 0) 0 = (r, n)"
      by (cases "wait_for (llm_choice e prompt call g 0) 0")
    note u = choose_parity_unfold [OF o False m w, of lvl]
    show ?thesis
    proof (cases r)
      case (Inr c)
      with u show ?thesis by (auto split: option.splits)
    next
      case (Inl x)
      with w have "is_Exception x"
        using wait_for_exception [OF _ assms(3,4)] by blast
      with u Inl show ?thesis by auto
    qed
  qed
qed

lemma init_mode:
  assumes "StrategyEngine_init md model timeout agno key = Inr e"
  shows "mode e \<in> {''random'', ''llm'', ''hybrid''}"
  using assms by (auto simp: StrategyEngine_init_def split: if_splits)

text \<open>
  C3. An engine built by its constructor has one of the three modes; whenever
  \<open>choose_parity\<close> on it returns, the value returned is the string \<open>even\<close> or the string
  \<open>odd\<close>, whatever the agent, the logger and the random source do. And it does return
  whenever the context is a dictionary and whatever the reasoning call or the prompt
  formatting raises is an \<open>Exception\<close>.
\<close>

theorem choose_parity_returns_canonical:
  assumes "StrategyEngine_init md model timeout agno key = Inr e"
  shows "((\<exists>d. ctx = PDict d) \<and> (\<forall>y. call = Raises y \<longrightarrow> is_Exception y) \<and>
          (\<forall>y. prompt = Inl y \<longrightarrow> is_Exception y) \<longrightarrow>
            (\<exists>v. choose_parity e lvl ctx prompt call g = Inr v)) \<and>
         (\<forall>v. choose_parity e lvl ctx prompt call g = Inr v \<longrightarrow>
              v \<in> {PStr ''even'', PStr ''odd''})"
proof -
  note m = init_mode [OF assms]
  have "(\<exists>d. ctx = PDict d) \<and> (\<forall>y. call = Raises y \<longrightarrow> is_Exception y) \<and>
          (\<forall>y. prompt = Inl y \<longrightarrow> is_Exception y) \<longrightarrow>
            (\<exists>v. choose_parity e lvl ctx prompt call g = Inr v)"
    using choose_parity_returns [OF m] by blast
  moreover have "\<forall>v. choose_parity e lvl ctx prompt call g = Inr v \<longrightarrow>
                   v \<in> {PStr ''even'', PStr ''odd''}"
    using choose_parity_canonical [OF m] by blast
  ultimately show ?thesis by blast
qed

theorem choose_parity_returns_canonical_witness:
  "StrategyEngine_init ''hybrid'' ''gemini-2.0-flash-exp'' 25 True (Some ''test-key'') =
     Inr \<lparr>mode = ''hybrid'', llm_timeout = 25,
          agent = Some (GeminiAgent ''gemini-2.0-flash-exp'')\<rparr> \<and>
   choose_parity
     \<lparr>mode = ''hybrid'', llm_timeout = 25, agent = Some (GeminiAgent ''gemini-2.0-flash-exp'')\<rparr>
     40 (PDict [(''opponent'', PStr ''P02'')]) (Inr ''Make your parity choice'')
     (Returns (WithContent (ContentParityChoice ''odd'' ''a hunch''))) (\<lambda>n. True) =
     Inr (PStr ''odd'') \<and>
   PStr ''odd'' \<in> {PStr ''even'', PStr ''odd''}"
proof -
  have i: "StrategyEngine_init ''hybrid'' ''gemini-2.0-flash-exp'' 25 True (Some ''test-key'') =
     Inr \<lparr>mode = ''hybrid'', llm_timeout = 25,
          agent = Some (GeminiAgent ''gemini-2.0-flash-exp'')\<rparr>"
    by (simp add: StrategyEngine_init_def)
  have c: "choose_parity
     \<lparr>mode = ''hybrid'', llm_timeout = 25, agent = Some (GeminiAgent ''gemini-2.0-flash-exp'')\<rparr>
     40 (PDict [(''opponent'', PStr ''P02'')]) (Inr ''Make your parity choice'')
     (Returns (WithContent (ContentParityChoice ''odd'' ''a hunch''))) (\<lambda>n. True) =
     Inr (PStr ''odd'')"
    by (simp add: choose_parity_def obj_get_def dict_get_def llm_choice_def wait_for_def
          extract_choice_def log_with_kwargs_def INFO_def WARNING_def)
  from choose_parity_returns_canonical [OF i] i c show ?thesis by blast
qed

text \<open>
  C1 fails on the code. In mode \<open>llm\<close>, with an agent present and the logger at its
  configured level INFO: a reasoning call that does not answer in time, one that raises a
  service error, and one that answers with a value outside the canonical set each make
  \<open>choose_parity\<close> return a random outcome; nothing is raised.
\<close>

theorem llm_mode_failures_return_random_choice:
  "choose_parity
     \<lparr>mode = ''llm'', llm_timeout = 25, agent = Some (GeminiAgent ''gemini-2.0-flash-exp'')\<rparr>
     20 (PDict [(''opponent'', PStr ''P02'')]) (Inr ''Make your parity choice'')
     NoAnswerInTime (\<lambda>n. True) = Inr (PStr ''even'') \<and>
   choose_parity
     \<lparr>mode = ''llm'', llm_timeout = 25, agent = Some (GeminiAgent ''gemini-2.0-flash-exp'')\<rparr>
     20 (PDict [(''opponent'', PStr ''P02'')]) (Inr ''Make your parity choice'')
     (Raises (RuntimeError ''service unavailable'')) (\<lambda>n. True) = Inr (PStr ''even'') \<and>
   choose_parity
     \<lparr>mode = ''llm'', llm_timeout = 25, agent = Some (GeminiAgent ''gemini-2.0-flash-exp'')\<rparr>
     20 (PDict [(''opponent'', PStr ''P02'')]) (Inr ''Make your parity choice'')
     (Returns (WithContent (ContentDict [(''choice'', PStr ''EVEN'')]))) (\<lambda>n. False) =
     Inr (PStr ''odd'')"
  by (simp add: choose_parity_def obj_get_def llm_choice_def wait_for_def extract_choice_def
        dict_get_def log_with_kwargs_def INFO_def WARNING_def random_choice_def)

section \<open>Dispatch: the choice operation\<close>

lemma canonical_response:
  assumes "builder_auth_token b = Some tok" and "tok \<noteq> []"
    and "choice \<in> {''even'', ''odd''}"
  shows "\<exists>msg. build_choose_parity_response b now c m choice = Inr msg \<and>
           msg ''parity_choice'' = Some (PStr choice) \<and>
           msg ''message_type'' = Some (PStr ''CHOOSE_PARITY_RESPONSE'')"
  using build_envelope_token [OF assms(1,2), of now "''CHOOSE_PARITY_RESPONSE''" c] assms(3)
  by (auto simp: build_choose_parity_response_def)

text \<open>
  C2, as the claim states it, fails: an engine error other than a timeout is raised again
  by the handler, here for a registered player whose strategy object raises RuntimeError.
\<close>

theorem handler_reraises_engine_error:
  "handler_choose_parity example_handlers example_params None
     (Inl (RuntimeError ''engine failure'')) example_clock =
   Inl (RuntimeError ''engine failure'')"
  by (simp add: handler_choose_parity_def)

lemma handler_on_value:
  assumes "builder_auth_token (protocol h) = Some tok" and "tok \<noteq> []"
  shows "\<exists>msg. handler_choose_parity h params None (Inr v) now = Inr msg \<and>
           msg ''message_type'' = Some (PStr ''CHOOSE_PARITY_RESPONSE'') \<and>
           msg ''parity_choice'' =
             Some (if v \<in> {PStr ''even'', PStr ''odd''} then v else PStr ''even'')"
proof -
  let ?c = "dict_get params ''conversation_id'' (PStr ''unknown'')"
  let ?m = "dict_get params ''match_id'' (PStr ''unknown'')"
  let ?choice = "case v of PStr c \<Rightarrow> if c \<notin> set [''even'', ''odd''] then ''even'' else c
                          | _ \<Rightarrow> ''even''"
  have ch: "?choice \<in> {''even'', ''odd''}"
    by (cases v) auto
  have eq: "PStr ?choice = (if v \<in> {PStr ''even'', PStr ''odd''} then v else PStr ''even'')"
    by (cases v) auto
  from canonical_response [OF assms ch, of now ?c ?m] obtain msg where
    msg: "build_choose_parity_response (protocol h) now ?c ?m ?choice = Inr msg"
      "msg ''parity_choice'' = Some (PStr ?choice)"
      "msg ''message_type'' = Some (PStr ''CHOOSE_PARITY_RESPONSE'')"
    by blast
  then show ?thesis
    using eq by (simp add: handler_choose_parity_def Let_def)
qed

lemma handler_on_timeout:
  assumes "builder_auth_token (protocol h) = Some tok" and "tok \<noteq> []"
  shows "\<exists>msg. handler_choose_parity h params None (Inl TimeoutError) now = Inr msg \<and>
           msg ''message_type'' = Some (PStr ''CHOOSE_PARITY_RESPONSE'') \<and>
           msg ''parity_choice'' = Some (PStr ''even'')"
proof -
  let ?c = "dict_get params ''conversation_id'' (PStr ''unknown'')"
  let ?m = "dict_get params ''match_id'' (PStr ''unknown'')"
  have e: "''even'' \<in> {''even'', ''odd''}" by simp
  from canonical_response [OF assms e, of now ?c ?m] obtain msg' where
    msg': "build_choose_parity_response (protocol h) now ?c ?m ''even'' = Inr msg'"
      "msg' ''parity_choice'' = Some (PStr ''even'')"
      "msg' ''message_type'' = Some (PStr ''CHOOSE_PARITY_RESPONSE'')"
    by blast
  then show ?thesis by (simp add: handler_choose_parity_def Let_def)
qed

lemma handler_on_error:
  "x \<noteq> TimeoutError \<Longrightarrow> handler_choose_parity h params None (Inl x) now = Inl x"
  by (cases x) (simp_all add: handler_choose_parity_def Let_def)

text \<open>
  C2, amended. With a non-empty token in the builder and the console panel printed: a
  value returned by the engine is answered with a choice response, carrying that value
  when it is canonical and \<open>even\<close> when it is not; a TimeoutError of the engine is
  answered with the emergency response \<open>even\<close>; any other exception of the engine
  leaves the handler as it came, and no substitute choice is returned.
\<close>

theorem handler_substitutes_even_or_reraises:
  assumes "builder_auth_token (protocol h) = Some tok" and "tok \<noteq> []"
  shows
   "(\<exists>msg. handler_choose_parity h params None (Inr v) now = Inr msg \<and>
           msg ''message_type'' = Some (PStr ''CHOOSE_PARITY_RESPONSE'') \<and>
           msg ''parity_choice'' =
             Some (if v \<in> {PStr ''even'', PStr ''odd''} then v else PStr ''even'')) \<and>
    (\<exists>msg. handler_choose_parity h params None (Inl TimeoutError) now = Inr msg \<and>
           msg ''message_type'' = Some (PStr ''CHOOSE_PARITY_RESPONSE'') \<and>
           msg ''parity_choice'' = Some (PStr ''even'')) \<and>
    (x \<noteq> TimeoutError \<longrightarrow>
       handler_choose_parity h params None (Inl x) now = Inl x)"
  using handler_on_value [OF assms, of params v now]
    handler_on_timeout [OF assms, of params now]
    handler_on_error [of x h params now]
  by blast

theorem handler_substitutes_even_or_reraises_witness:
  "builder_auth_token (protocol example_handlers) = Some ''auth-token-12345'' \<and>
   (\<exists>msg. handler_choose_parity example_handlers example_params None (Inr (PStr ''Even''))
            example_clock = Inr msg \<and>
          msg ''parity_choice'' = Some (PStr ''even'')) \<and>
   (\<exists>msg. handler_choose_parity example_handlers example_params None (Inl TimeoutError)
            example_clock = Inr msg \<and>
          msg ''parity_choice'' = Some (PStr ''even'')) \<and>
   handler_choose_parity example_handlers example_params None
     (Inl (ValueError ''bad context'')) example_clock = Inl (ValueError ''bad context'')"
proof -
  have t: "builder_auth_token (protocol example_handlers) = Some ''auth-token-12345''"
    by (simp add: example_handlers_def)
  have n: "''auth-token-12345'' \<noteq> []" by simp
  from handler_substitutes_even_or_reraises
         [OF t n, of example_params "PStr ''Even''" example_clock "ValueError ''bad context''"]
       t
  show ?thesis by auto
qed

text \<open>
  With the engine of this repository behind the handler, called on the context that the
  handler builds, an unrecovered engine error can only be something that is not an
  \<open>Exception\<close> (a cancellation): in every other case a registered player gets a canonical
  answer.
\<close>

lemma handler_with_engine_answers:
  assumes "StrategyEngine_init md model timeout agno key = Inr e"
    and "builder_auth_token (protocol h) = Some tok" and "tok \<noteq> []"
    and "\<forall>y. call = Raises y \<longrightarrow> is_Exception y"
    and "\<forall>y. prompt = Inl y \<longrightarrow> is_Exception y"
  shows "\<exists>msg. handler_choose_parity h params None
                 (choose_parity e lvl (handler_context h params) prompt call g) now
                 = Inr msg \<and>
           msg ''parity_choice'' \<in> {Some (PStr ''even''), Some (PStr ''odd'')}"
proof -
  note m = init_mode [OF assms(1)]
  have hc: "handler_context h params =
      PDict [(''opponent'', dict_get params ''opponent_id'' (PStr ''unknown'')),
             (''standings'', dict_get params ''standings'' (PDict [])),
             (''history'', PList (map PDict (get_match_history (state h) (Some 10)))),
             (''deadline'', dict_get params ''deadline'' PNone)]"
    by (simp add: handler_context_def)
  obtain v where v: "choose_parity e lvl (handler_context h params) prompt call g = Inr v"
    using choose_parity_returns [OF m hc assms(4,5)] by blast
  then have c: "v \<in> {PStr ''even'', PStr ''odd''}"
    using choose_parity_canonical [OF m] by blast
  from handler_on_value [OF assms(2,3), of params v now] obtain msg where
    "handler_choose_parity h params None (Inr v) now = Inr msg"
    "msg ''parity_choice'' =
       Some (if v \<in> {PStr ''even'', PStr ''odd''} then v else PStr ''even'')"
    by blast
  with c v show ?thesis by auto
qed

section \<open>Timestamps\<close>

text \<open>
  C8 fails on the code where the clock reads a whole second: \<open>isoformat()\<close> leaves the
  fraction out when the microsecond field is zero, so the timestamp has no sub-second
  part (no decimal point at all), although it validates, ends in \<open>Z\<close> and holds no \<open>+\<close>.
\<close>

theorem whole_second_timestamp_has_no_fraction:
  "valid_datetime example_whole_second \<and>
   get_utc_now example_whole_second = ''2025-01-15T10:30:00Z'' \<and>
   CHR ''.'' \<notin> set (get_utc_now example_whole_second) \<and>
   validate_timestamp (get_utc_now example_whole_second) = Inr True"
proof -
  have v: "valid_datetime example_whole_second"
    by (simp add: valid_datetime_def example_whole_second_def days_in_month_def)
  have g: "get_utc_now example_whole_second = ''2025-01-15T10:30:00Z''"
    by (simp add: get_utc_now_def isoformat_def zero_pad_def dec.simps digit_char_def
          example_whole_second_def)
  have t: "validate_timestamp ''2025-01-15T10:30:00Z'' = Inr True"
    by (simp add: validate_timestamp_def ISO8601_PATTERN_match_def strip_final_newline_def
          date_time_layout_def all_digits_def is_digit_def fraction_then_Z_def
          parse_timestamp_def rstrip_Z_def fromisoformat_def nat_of_digits_def digit_val_def
          valid_datetime_def days_in_month_def is_leap_def Let_def)
  from v g t show ?thesis by simp
qed

end
